theory Spec2Isabelle
  imports
    Main
    "HOL-Library.Sublist"
    "HOL-Library.Char_ord"
    "HOL-Library.List_Lexorder"
begin

section \<open>JSON documents and Python errors\<close>

text \<open>
  Every stored document is JSON text; \<^verbatim>\<open>json.loads\<close> turns it into Python dicts, lists,
  strings, ints, booleans and \<^verbatim>\<open>None\<close>. A dict is kept as the list of its items in insertion
  order (Python dicts are ordered); its keys are distinct and lookups go through \<open>map_of\<close>.
  JSON numbers are the integers: the documents of this service hold timestamps only.
\<close>

datatype json =
    JNull
  | JBool bool
  | JNum int
  | JStr string
  | JList "json list"
  | JObj "(string \<times> json) list"

text \<open>
  The exceptions the modelled code can raise. \<open>HTTPException\<close> carries FastAPI's status code
  and detail; the gateway passes the vendor's error code (a string) as status code, and the
  handlers' \<^verbatim>\<open>except Exception as e\<close> clauses build the detail \<^verbatim>\<open>str(e)\<close> from the exception
  they caught. \<open>Unmodelled\<close> is not a Python exception: it marks an input this model does not
  follow further (an id sequence holding a number, a boolean or null).
\<close>

datatype status_code = Status nat | VendorCode string

datatype error =
    HTTPException status_code detail
  | TypeError
  | KeyError
  | AttributeError
  | ValidationError
  | Unmodelled
and detail = Message string | StrOf error

section \<open>Strings\<close>

text \<open>\<^verbatim>\<open>s.split(sep)\<close> for a one-character separator: never empty, \<^verbatim>\<open>''.split('.') == ['']\<close>.\<close>

fun str_split :: "char \<Rightarrow> string \<Rightarrow> string list" where
  "str_split sep [] = [[]]"
| "str_split sep (c # cs) =
     (if c = sep then [] # str_split sep cs
      else (case str_split sep cs of w # ws \<Rightarrow> (c # w) # ws | [] \<Rightarrow> [[c]]))"

text \<open>\<^verbatim>\<open>sep.join(words)\<close>.\<close>

fun str_join :: "string \<Rightarrow> string list \<Rightarrow> string" where
  "str_join sep [] = []"
| "str_join sep [w] = w"
| "str_join sep (w # ws) = w @ sep @ str_join sep ws"

text \<open>\<^verbatim>\<open>s.startswith(p)\<close>.\<close>

fun startswith :: "string \<Rightarrow> string \<Rightarrow> bool" where
  "startswith s [] = True"
| "startswith [] (p # ps) = False"
| "startswith (c # cs) (p # ps) = (c = p \<and> startswith cs ps)"

text \<open>\<^verbatim>\<open>p in s\<close> for two strings: \<open>p\<close> occurs in \<open>s\<close> as a contiguous substring.\<close>

fun str_contains :: "string \<Rightarrow> string \<Rightarrow> bool" where
  "str_contains p [] = (p = [])"
| "str_contains p (c # cs) = (startswith (c # cs) p \<or> str_contains p cs)"

section \<open>The field projector\<close>

definition default_conversation_fields :: "string list" where
  "default_conversation_fields =
     [''id'', ''createdBy'', ''createdAt'', ''updatedAt'', ''status'', ''summaryText'',
      ''summaryType'', ''blockIds'']"

definition default_block_fields :: "string list" where
  "default_block_fields = [''id'', ''inputText'', ''responseIds'', ''createdBy'', ''createdAt'']"

definition default_response_fields :: "string list" where
  "default_response_fields = [''id'', ''source'', ''responseType'', ''requestedAt'']"

text \<open>The dict \<^verbatim>\<open>nested_default_fields\<close> of \<^verbatim>\<open>filter_nested_fields\<close>.\<close>

definition nested_default_fields :: "string \<Rightarrow> string list option" where
  "nested_default_fields k =
     (if k = ''blocks'' then Some default_block_fields
      else if k = ''responses'' then Some default_response_fields
      else None)"

text \<open>\<^verbatim>\<open>nested_default_fields.get(key, [])\<close>.\<close>

definition nested_default_get :: "string \<Rightarrow> string list" where
  "nested_default_get k = (case nested_default_fields k of Some ds \<Rightarrow> ds | None \<Rightarrow> [])"

text \<open>
  \<^verbatim>\<open>include_fields\<close> after the first loop: the default fields, and the nested entity's
  defaults for every additional field whose first segment is \<^verbatim>\<open>blocks\<close> or \<^verbatim>\<open>responses\<close>.
  Python's sets are kept as lists; \<open>remdups\<close> stands for \<^verbatim>\<open>set(...)\<close>. The order in which
  Python iterates a set is not specified, and nothing below depends on it but the order of
  the keys of the result, which Python's dict equality ignores.
\<close>

definition include_fields :: "string list \<Rightarrow> string list \<Rightarrow> string list" where
  "include_fields default_fields additional_fields =
     default_fields @
     concat (map (\<lambda>field. nested_default_get (hd (str_split CHR ''.'' field)))
                 (remdups additional_fields))"

text \<open>
  One round of the second loop:
  \<^verbatim>\<open>parts = field.split('.')\<close>,
  \<^verbatim>\<open>if parts[0] not in field_parts: field_parts[parts[0]] = []\<close>,
  \<^verbatim>\<open>if len(parts) > 1: field_parts[parts[0]].append('.'.join(parts[1:]))\<close>.
\<close>

definition add_field_part ::
  "(string \<times> string list) list \<Rightarrow> string \<Rightarrow> (string \<times> string list) list" where
  "add_field_part field_parts field =
     (let parts = str_split CHR ''.'' field;
          k = hd parts;
          fp = (if k \<in> fst ` set field_parts then field_parts else field_parts @ [(k, [])])
      in if length parts > 1
         then map (\<lambda>(k', ns). if k' = k then (k', ns @ [str_join ''.'' (tl parts)]) else (k', ns)) fp
         else fp)"

text \<open>The dict \<^verbatim>\<open>field_parts\<close> built from \<^verbatim>\<open>include_fields | additional_fields_set\<close>.\<close>

definition field_parts :: "string list \<Rightarrow> (string \<times> string list) list" where
  "field_parts fields' = foldl add_field_part [] (remdups fields')"

text \<open>
  \<^verbatim>\<open>key in data\<close> for a string \<open>key\<close>: membership in a dict's keys, equality with an element
  of a list, substring of a string, and a \<^verbatim>\<open>TypeError\<close> on a number, a boolean or \<^verbatim>\<open>None\<close>.
\<close>

fun py_contains :: "json \<Rightarrow> string \<Rightarrow> error + bool" where
  "py_contains (JObj kvs) key = Inr (key \<in> fst ` set kvs)"
| "py_contains (JList xs) key = Inr (JStr key \<in> set xs)"
| "py_contains (JStr s) key = Inr (str_contains key s)"
| "py_contains _ key = Inl TypeError"

text \<open>\<^verbatim>\<open>data[key]\<close> for a string \<open>key\<close>: a list or a string takes integer indices only.\<close>

fun py_getitem :: "json \<Rightarrow> string \<Rightarrow> error + json" where
  "py_getitem (JObj kvs) key = (case map_of kvs key of Some v \<Rightarrow> Inr v | None \<Rightarrow> Inl KeyError)"
| "py_getitem _ key = Inl TypeError"

text \<open>\<^verbatim>\<open>isinstance(value, list)\<close>, with the list.\<close>

fun as_list :: "json \<Rightarrow> json list option" where
  "as_list (JList xs) = Some xs"
| "as_list _ = None"

lemma map_of_size:
  "map_of kvs k = Some v \<Longrightarrow> size v < Suc (size_list (size_prod (\<lambda>x. 0) size) kvs)"
  by (induction kvs) (auto split: if_splits)

lemma py_getitem_size: "py_getitem d k = Inr v \<Longrightarrow> size v < size d"
  by (cases d) (auto split: option.splits dest: map_of_size)

lemma as_list_size: "as_list v = Some xs \<Longrightarrow> size_list size xs < size v"
  by (cases v) auto

text \<open>
  \<^verbatim>\<open>filter_nested_fields(data, default_fields, additional_fields)\<close>. \<open>filter_loop\<close> is its last
  loop, \<^verbatim>\<open>for key, nested_fields in field_parts.items()\<close>, with the dict \<^verbatim>\<open>filtered_data\<close>
  built so far; \<open>filter_items\<close> is the list comprehension over the items of a list value. An
  exception anywhere ends the whole call.
\<close>

function filter_nested_fields :: "json \<Rightarrow> string list \<Rightarrow> string list \<Rightarrow> error + json"
  and filter_loop ::
    "json \<Rightarrow> (string \<times> string list) list \<Rightarrow> (string \<times> json) list \<Rightarrow> error + json"
  and filter_items :: "json list \<Rightarrow> string list \<Rightarrow> string list \<Rightarrow> error + json list"
where
  "filter_nested_fields data default_fields additional_fields =
     filter_loop data
       (field_parts (include_fields default_fields additional_fields @ additional_fields)) []"
| "filter_loop data [] filtered_data = Inr (JObj filtered_data)"
| "filter_loop data ((key, nested_fields) # rest) filtered_data =
     (case py_contains data key of
        Inl e \<Rightarrow> Inl e
      | Inr False \<Rightarrow> filter_loop data rest filtered_data
      | Inr True \<Rightarrow>
          (case py_getitem data key of
             Inl e \<Rightarrow> Inl e
           | Inr v \<Rightarrow>
               if nested_fields \<noteq> [] then
                 (case as_list v of
                    Some items \<Rightarrow>
                      (case filter_items items (nested_default_get key) nested_fields of
                         Inl e \<Rightarrow> Inl e
                       | Inr items' \<Rightarrow>
                           filter_loop data rest (filtered_data @ [(key, JList items')]))
                  | None \<Rightarrow>
                      (case filter_nested_fields v (nested_default_get key) nested_fields of
                         Inl e \<Rightarrow> Inl e
                       | Inr v' \<Rightarrow> filter_loop data rest (filtered_data @ [(key, v')])))
               else filter_loop data rest (filtered_data @ [(key, v)])))"
| "filter_items [] d a = Inr []"
| "filter_items (item # items) d a =
     (case filter_nested_fields item d a of
        Inl e \<Rightarrow> Inl e
      | Inr v \<Rightarrow> (case filter_items items d a of Inl e \<Rightarrow> Inl e | Inr vs \<Rightarrow> Inr (v # vs)))"
  by pat_completeness auto
termination
  apply (relation "measures [
     (\<lambda>x. case x of Inl (d, _, _) \<Rightarrow> size d
                  | Inr (Inl (d, _, _)) \<Rightarrow> size d
                  | Inr (Inr (xs, _, _)) \<Rightarrow> size_list size xs),
     (\<lambda>x. case x of Inl _ \<Rightarrow> 1 | Inr (Inl _) \<Rightarrow> 0 | Inr (Inr _) \<Rightarrow> 0),
     (\<lambda>x. case x of Inl _ \<Rightarrow> 0 | Inr (Inl (_, fp, _)) \<Rightarrow> length fp
                  | Inr (Inr (xs, _, _)) \<Rightarrow> length xs)]")
  apply (auto dest!: py_getitem_size as_list_size)
  done

text \<open>\<^verbatim>\<open>fields.split(',') if fields else []\<close> for the optional query parameter \<^verbatim>\<open>fields\<close>.\<close>

definition requested_fields :: "string option \<Rightarrow> string list" where
  "requested_fields fields' =
     (case fields' of None \<Rightarrow> [] | Some f \<Rightarrow> if f = [] then [] else str_split CHR '','' f)"

section \<open>Storage keys and the document store gateway\<close>

text \<open>
  The directory names the module reads from its environment at start-up. The module refuses to
  start when one of them is empty or missing.
\<close>

record config =
  bucket_base_folder :: string
  conversations_dir_name :: string
  blocks_dir_name :: string
  responses_dir_name :: string

text \<open>
  An optional id argument inside an f-string: \<^verbatim>\<open>None\<close> prints as \<^verbatim>\<open>None\<close>.
\<close>

definition fmt_id :: "string option \<Rightarrow> string" where
  "fmt_id x = (case x of None \<Rightarrow> ''None'' | Some s \<Rightarrow> s)"

text \<open>\<^verbatim>\<open>if block_id:\<close> for an optional string: neither \<^verbatim>\<open>None\<close> nor empty.\<close>

definition truthy_id :: "string option \<Rightarrow> bool" where
  "truthy_id x = (case x of None \<Rightarrow> False | Some s \<Rightarrow> s \<noteq> [])"

text \<open>\<^verbatim>\<open>get_s3_key(conversation_id, block_id=None, response_id=None)\<close>.\<close>

definition get_s3_key :: "config \<Rightarrow> string \<Rightarrow> string option \<Rightarrow> string option \<Rightarrow> string" where
  "get_s3_key cfg conversation_id block_id response_id =
     (if truthy_id response_id then
        bucket_base_folder cfg @ ''/'' @ conversations_dir_name cfg @ ''/'' @ conversation_id
          @ ''/'' @ blocks_dir_name cfg @ ''/'' @ fmt_id block_id
          @ ''/'' @ responses_dir_name cfg @ ''/'' @ fmt_id response_id @ ''.json''
      else if truthy_id block_id then
        bucket_base_folder cfg @ ''/'' @ conversations_dir_name cfg @ ''/'' @ conversation_id
          @ ''/'' @ blocks_dir_name cfg @ ''/'' @ fmt_id block_id @ ''.json''
      else
        bucket_base_folder cfg @ ''/'' @ conversations_dir_name cfg @ ''/'' @ conversation_id
          @ ''.json'')"

text \<open>
  The bucket: a map from keys to the documents stored under them. The gateway writes
  \<^verbatim>\<open>json.dumps(data)\<close> and reads with \<^verbatim>\<open>json.loads\<close>, so what is read back is the document
  that was written. The bucket is taken to be reachable: missing credentials and transport
  failures are outside this model. A key that is not in the bucket makes \<^verbatim>\<open>get_object\<close> raise
  a \<^verbatim>\<open>ClientError\<close> with the code \<^verbatim>\<open>NoSuchKey\<close>, which \<^verbatim>\<open>get_json_from_s3\<close> re-raises as
  \<^verbatim>\<open>HTTPException(status_code=e.response['Error']['Code'], detail=e.response['Error']['Message'])\<close>.
\<close>

type_synonym bucket = "string \<Rightarrow> json option"

definition no_such_key :: error where
  "no_such_key = HTTPException (VendorCode ''NoSuchKey'') (Message ''The specified key does not exist.'')"

definition get_json_from_s3 :: "bucket \<Rightarrow> string \<Rightarrow> error + json" where
  "get_json_from_s3 s3 key = (case s3 key of None \<Rightarrow> Inl no_such_key | Some doc \<Rightarrow> Inr doc)"

definition put_json_to_s3 :: "bucket \<Rightarrow> string \<Rightarrow> json \<Rightarrow> bucket" where
  "put_json_to_s3 s3 key data = s3(key \<mapsto> data)"

definition delete_json_from_s3 :: "bucket \<Rightarrow> string \<Rightarrow> bucket" where
  "delete_json_from_s3 s3 key = s3(key := None)"

section \<open>The fetch cache\<close>

text \<open>
  The arguments of the cached functions: a string, or a tuple of strings. \<^verbatim>\<open>hash_key\<close> builds
  the cache key of a call from its positional arguments and its keyword arguments, the latter
  sorted (by name: the names of one call are distinct).
\<close>

datatype arg = AStr string | ATuple "string list"

type_synonym cache_key = "arg list \<times> (string \<times> arg) list"

definition hash_key :: "arg list \<Rightarrow> (string \<times> arg) list \<Rightarrow> cache_key" where
  "hash_key args kwargs = (args, sort_key fst kwargs)"

text \<open>
  \<^verbatim>\<open>cache = TTLCache(maxsize=2048, ttl=300000)\<close>, the one cache all three functions share. The
  library is cachetools; this is its behaviour as the module uses it. An entry is a key, the
  cached value and the time at which it expires; the list is in the order of last use, least
  recently used first. Time is the reading of the cache's timer, in whole seconds.
\<close>

type_synonym ttl_cache = "(cache_key \<times> json \<times> nat) list"

definition cache_maxsize :: nat where
  "cache_maxsize = 2048"

definition cache_ttl :: nat where
  "cache_ttl = 300000"

text \<open>\<^verbatim>\<open>cache[k]\<close>: the value of an entry that has not expired; \<open>None\<close> is the \<^verbatim>\<open>KeyError\<close>.\<close>

definition cache_getitem :: "ttl_cache \<Rightarrow> nat \<Rightarrow> cache_key \<Rightarrow> json option" where
  "cache_getitem c now k =
     (case map_of c k of
        None \<Rightarrow> None
      | Some (v, expires) \<Rightarrow> if now < expires then Some v else None)"

text \<open>A hit makes the entry the most recently used one.\<close>

definition cache_touch :: "ttl_cache \<Rightarrow> cache_key \<Rightarrow> ttl_cache" where
  "cache_touch c k = filter (\<lambda>e. fst e \<noteq> k) c @ filter (\<lambda>e. fst e = k) c"

text \<open>\<^verbatim>\<open>cache.expire(time)\<close>: drops every entry that has expired.\<close>

definition cache_expire :: "ttl_cache \<Rightarrow> nat \<Rightarrow> ttl_cache" where
  "cache_expire c now = filter (\<lambda>(k, v, expires). now < expires) c"

text \<open>
  \<^verbatim>\<open>cache[k] = v\<close>: expired entries go first; a new key evicts the least recently used entries
  while the cache is full; the entry expires \<open>cache_ttl\<close> after now and is the most recently
  used one.
\<close>

definition cache_setitem :: "ttl_cache \<Rightarrow> nat \<Rightarrow> cache_key \<Rightarrow> json \<Rightarrow> ttl_cache" where
  "cache_setitem c now k v =
     (let live = cache_expire c now;
          kept = (if k \<in> fst ` set live then filter (\<lambda>e. fst e \<noteq> k) live
                  else drop (Suc (length live) - cache_maxsize) live)
      in kept @ [(k, v, now + cache_ttl)])"

text \<open>
  The state the handlers work on: the bucket and the cache. A handler returns its result, or
  the exception it raised, together with the state it leaves behind: what was written or
  cached before an exception stays written and cached.
\<close>

record state =
  s3 :: bucket
  cache :: ttl_cache

type_synonym 'a result = "(error + 'a) \<times> state"

text \<open>
  The decorator \<^verbatim>\<open>@cached(cache, key=hash_key)\<close> around a function body: return the cached
  value on a hit; otherwise run the body and store what it returns. An exception of the body
  stores nothing.
\<close>

definition cached :: "nat \<Rightarrow> cache_key \<Rightarrow> (state \<Rightarrow> json result) \<Rightarrow> state \<Rightarrow> json result" where
  "cached now k body st =
     (case cache_getitem (cache st) now k of
        Some v \<Rightarrow> (Inr v, st\<lparr>cache := cache_touch (cache st) k\<rparr>)
      | None \<Rightarrow>
          (case body st of
             (Inl e, st') \<Rightarrow> (Inl e, st')
           | (Inr v, st') \<Rightarrow> (Inr v, st'\<lparr>cache := cache_setitem (cache st') now k v\<rparr>)))"

section \<open>Hydration: the cached fetch functions\<close>

text \<open>
  \<^verbatim>\<open>tuple(x)\<close> for an id sequence \<open>x\<close> read from a document, as far as the cached call that
  takes it goes. A list of strings is the tuple of its elements, a string the tuple of its
  characters, a dict the tuple of its keys. \<^verbatim>\<open>None\<close>, a number or a boolean is not iterable
  (\<^verbatim>\<open>TypeError\<close>); a list holding a list or a dict gives a tuple that cannot be hashed
  (\<^verbatim>\<open>TypeError\<close>, raised when the cached call builds its key). A list whose other elements are
  numbers, booleans or nulls is where this model stops.
\<close>

fun is_str :: "json \<Rightarrow> bool" where
  "is_str (JStr s) = True"
| "is_str _ = False"

fun the_str :: "json \<Rightarrow> string" where
  "the_str (JStr s) = s"
| "the_str _ = []"

fun unhashable :: "json \<Rightarrow> bool" where
  "unhashable (JList xs) = True"
| "unhashable (JObj kvs) = True"
| "unhashable _ = False"

fun py_tuple :: "json \<Rightarrow> error + string list" where
  "py_tuple (JList xs) =
     (if list_all is_str xs then Inr (map the_str xs)
      else if list_ex unhashable xs then Inl TypeError
      else Inl Unmodelled)"
| "py_tuple (JStr s) = Inr (map (\<lambda>c. [c]) s)"
| "py_tuple (JObj kvs) = Inr (map fst kvs)"
| "py_tuple _ = Inl TypeError"

text \<open>\<^verbatim>\<open>doc.get(key, [])\<close>: only a dict has the method.\<close>

fun py_get :: "json \<Rightarrow> string \<Rightarrow> error + json" where
  "py_get (JObj kvs) key = Inr (case map_of kvs key of Some v \<Rightarrow> v | None \<Rightarrow> JList [])"
| "py_get _ key = Inl AttributeError"

text \<open>\<^verbatim>\<open>d[key] = v\<close> on the items of a dict: a present key keeps its place.\<close>

fun dict_set :: "(string \<times> json) list \<Rightarrow> string \<Rightarrow> json \<Rightarrow> (string \<times> json) list" where
  "dict_set [] key v = [(key, v)]"
| "dict_set ((k, x) # kvs) key v = (if k = key then (k, v) # kvs else (k, x) # dict_set kvs key v)"

text \<open>\<^verbatim>\<open>doc[key] = v\<close>: a string key can be assigned on a dict only.\<close>

fun py_setitem :: "json \<Rightarrow> string \<Rightarrow> json \<Rightarrow> error + json" where
  "py_setitem (JObj kvs) key v = Inr (JObj (dict_set kvs key v))"
| "py_setitem _ key v = Inl TypeError"

text \<open>The loop of \<^verbatim>\<open>fetch_responses\<close>: one read per id, in the order of the ids.\<close>

fun fetch_responses_loop ::
  "config \<Rightarrow> bucket \<Rightarrow> string \<Rightarrow> string \<Rightarrow> string list \<Rightarrow> error + json list" where
  "fetch_responses_loop cfg b conversation_id block_id [] = Inr []"
| "fetch_responses_loop cfg b conversation_id block_id (response_id # response_ids) =
     (case get_json_from_s3 b (get_s3_key cfg conversation_id (Some block_id) (Some response_id)) of
        Inl e \<Rightarrow> Inl e
      | Inr response \<Rightarrow>
          (case fetch_responses_loop cfg b conversation_id block_id response_ids of
             Inl e \<Rightarrow> Inl e
           | Inr responses \<Rightarrow> Inr (response # responses)))"

text \<open>\<^verbatim>\<open>fetch_responses(conversation_id, block_id, response_ids)\<close>, cached.\<close>

definition fetch_responses ::
  "config \<Rightarrow> nat \<Rightarrow> string \<Rightarrow> string \<Rightarrow> string list \<Rightarrow> state \<Rightarrow> json result" where
  "fetch_responses cfg now conversation_id block_id response_ids =
     cached now (hash_key [AStr conversation_id, AStr block_id, ATuple response_ids] [])
       (\<lambda>st. (case fetch_responses_loop cfg (s3 st) conversation_id block_id response_ids of
                 Inl e \<Rightarrow> (Inl e, st)
               | Inr responses \<Rightarrow> (Inr (JList responses), st)))"

text \<open>
  The test of \<^verbatim>\<open>fetch_block\<close>:
  \<^verbatim>\<open>fields and ("blocks.responses" in fields or any(field.startswith("blocks.responses.") for field in fields.split(',')))\<close>.
\<close>

definition wants_responses :: "string \<Rightarrow> bool" where
  "wants_responses fields' \<longleftrightarrow>
     fields' \<noteq> [] \<and>
     (str_contains ''blocks.responses'' fields' \<or>
      list_ex (\<lambda>field. startswith field ''blocks.responses.'') (str_split CHR '','' fields'))"

text \<open>The body of \<^verbatim>\<open>fetch_block\<close>.\<close>

definition fetch_block_body ::
  "config \<Rightarrow> nat \<Rightarrow> string \<Rightarrow> string \<Rightarrow> string \<Rightarrow> state \<Rightarrow> json result" where
  "fetch_block_body cfg now conversation_id block_id fields' st =
     (case get_json_from_s3 (s3 st) (get_s3_key cfg conversation_id (Some block_id) None) of
        Inl e \<Rightarrow> (Inl e, st)
      | Inr block \<Rightarrow>
          if wants_responses fields' then
            (case py_get block ''responseIds'' of
               Inl e \<Rightarrow> (Inl e, st)
             | Inr ids \<Rightarrow>
                 (case py_tuple ids of
                    Inl e \<Rightarrow> (Inl e, st)
                  | Inr response_ids \<Rightarrow>
                      (case fetch_responses cfg now conversation_id block_id response_ids st of
                         (Inl e, st') \<Rightarrow> (Inl e, st')
                       | (Inr responses, st') \<Rightarrow> (py_setitem block ''responses'' responses, st'))))
          else (Inr block, st))"

text \<open>\<^verbatim>\<open>fetch_block(conversation_id, block_id, fields)\<close>, cached.\<close>

definition fetch_block ::
  "config \<Rightarrow> nat \<Rightarrow> string \<Rightarrow> string \<Rightarrow> string \<Rightarrow> state \<Rightarrow> json result" where
  "fetch_block cfg now conversation_id block_id fields' =
     cached now (hash_key [AStr conversation_id, AStr block_id, AStr fields'] [])
       (fetch_block_body cfg now conversation_id block_id fields')"

text \<open>The loop of \<^verbatim>\<open>fetch_blocks\<close>: one \<^verbatim>\<open>fetch_block\<close> per id, in the order of the ids.\<close>

fun fetch_blocks_loop ::
  "config \<Rightarrow> nat \<Rightarrow> string \<Rightarrow> string list \<Rightarrow> string \<Rightarrow> state \<Rightarrow> (json list) result" where
  "fetch_blocks_loop cfg now conversation_id [] fields' st = (Inr [], st)"
| "fetch_blocks_loop cfg now conversation_id (block_id # block_ids) fields' st =
     (case fetch_block cfg now conversation_id block_id fields' st of
        (Inl e, st') \<Rightarrow> (Inl e, st')
      | (Inr block, st') \<Rightarrow>
          (case fetch_blocks_loop cfg now conversation_id block_ids fields' st' of
             (Inl e, st'') \<Rightarrow> (Inl e, st'')
           | (Inr blocks, st'') \<Rightarrow> (Inr (block # blocks), st'')))"

text \<open>
  \<^verbatim>\<open>fetch_blocks(conversation_id, block_ids, fields)\<close>, cached. The handlers call it with three
  positional arguments.
\<close>

definition fetch_blocks ::
  "config \<Rightarrow> nat \<Rightarrow> string \<Rightarrow> string list \<Rightarrow> string \<Rightarrow> state \<Rightarrow> json result" where
  "fetch_blocks cfg now conversation_id block_ids fields' =
     cached now (hash_key [AStr conversation_id, ATuple block_ids, AStr fields'] [])
       (\<lambda>st. (case fetch_blocks_loop cfg now conversation_id block_ids fields' st of
                 (Inl e, st') \<Rightarrow> (Inl e, st')
               | (Inr blocks, st') \<Rightarrow> (Inr (JList blocks), st')))"

section \<open>The read handlers\<close>

text \<open>
  \<^verbatim>\<open>except Exception as e: raise HTTPException(status_code=500, detail=str(e))\<close>. (The marker
  \<open>Unmodelled\<close> is no exception and passes through.)
\<close>

definition internal_error :: "error \<Rightarrow> error" where
  "internal_error e = (if e = Unmodelled then Unmodelled else HTTPException (Status 500) (StrOf e))"

text \<open>
  The test of \<^verbatim>\<open>read_conversation\<close>:
  \<^verbatim>\<open>fields and ("blocks" in fields or any(field.startswith("blocks.") for field in fields.split(',')))\<close>,
  for a string; the handler's \<^verbatim>\<open>fields\<close> is optional, and \<^verbatim>\<open>None\<close> fails the test.
\<close>

definition wants_blocks :: "string \<Rightarrow> bool" where
  "wants_blocks fields' \<longleftrightarrow>
     fields' \<noteq> [] \<and>
     (str_contains ''blocks'' fields' \<or>
      list_ex (\<lambda>field. startswith field ''blocks.'') (str_split CHR '','' fields'))"

text \<open>
  The lines of \<^verbatim>\<open>read_conversation\<close> between reading the conversation and projecting it: the
  blocks are fetched and attached as \<^verbatim>\<open>conversation['blocks']\<close>.
\<close>

definition hydrate_conversation ::
  "config \<Rightarrow> nat \<Rightarrow> string \<Rightarrow> string \<Rightarrow> json \<Rightarrow> state \<Rightarrow> json result" where
  "hydrate_conversation cfg now conversation_id fields' conversation st =
     (case py_get conversation ''blockIds'' of
        Inl e \<Rightarrow> (Inl e, st)
      | Inr ids \<Rightarrow>
          (case py_tuple ids of
             Inl e \<Rightarrow> (Inl e, st)
           | Inr block_ids \<Rightarrow>
               (case fetch_blocks cfg now conversation_id block_ids fields' st of
                  (Inl e, st') \<Rightarrow> (Inl e, st')
                | (Inr blocks, st') \<Rightarrow> (py_setitem conversation ''blocks'' blocks, st'))))"

text \<open>
  \<^verbatim>\<open>read_conversation(conversation_id, fields)\<close>: what the handler returns or raises. (FastAPI's
  serialisation of the returned dict through the response model is outside this model.)
\<close>

definition read_conversation ::
  "config \<Rightarrow> nat \<Rightarrow> string \<Rightarrow> string option \<Rightarrow> state \<Rightarrow> json result" where
  "read_conversation cfg now conversation_id fields' st =
     (case
        (case get_json_from_s3 (s3 st) (get_s3_key cfg conversation_id None None) of
           Inl e \<Rightarrow> (Inl e, st)
         | Inr conversation \<Rightarrow>
             (case (case fields' of
                      None \<Rightarrow> (Inr conversation, st)
                    | Some f \<Rightarrow>
                        if wants_blocks f
                        then hydrate_conversation cfg now conversation_id f conversation st
                        else (Inr conversation, st)) of
                (Inl e, st') \<Rightarrow> (Inl e, st')
              | (Inr conversation', st') \<Rightarrow>
                  (filter_nested_fields conversation' default_conversation_fields
                     (requested_fields fields'), st')))
      of
        (Inl e, st') \<Rightarrow> (Inl (internal_error e), st')
      | (Inr filtered_conversation, st') \<Rightarrow> (Inr filtered_conversation, st'))"



text \<open>\<^verbatim>\<open>read_response(conversation_id, block_id, response_id, fields)\<close>.\<close>

definition read_response ::
  "config \<Rightarrow> string \<Rightarrow> string \<Rightarrow> string \<Rightarrow> string option \<Rightarrow> state \<Rightarrow> json result" where
  "read_response cfg conversation_id block_id response_id fields' st =
     (case get_json_from_s3 (s3 st)
             (get_s3_key cfg conversation_id (Some block_id) (Some response_id)) of
        Inl e \<Rightarrow> (Inl e, st)
      | Inr response \<Rightarrow>
          (filter_nested_fields response default_response_fields (requested_fields fields'), st))"

section \<open>The models\<close>

text \<open>
  The pydantic models of \<^verbatim>\<open>models.py\<close> as records (the field names carry a prefix: a record
  field is a constant of its own), and \<^verbatim>\<open>model.dict()\<close>, which lists every field of the
  model, \<^verbatim>\<open>None\<close> ones included, in the order of their declaration.
\<close>

record user =
  u_id :: string
  u_email :: string
  u_displayName :: "string option"

record response =
  r_id :: string
  r_source :: string
  r_responseType :: string
  r_payload :: json
  r_requestedAt :: "int option"
  r_respondedAt :: "int option"

record block =
  b_id :: string
  b_inputText :: string
  b_responseIds :: "string list"
  b_createdBy :: user
  b_createdAt :: int
  b_responses :: "response list option"

record conversation =
  c_id :: string
  c_createdBy :: user
  c_createdAt :: int
  c_updatedAt :: int
  c_status :: string
  c_summaryText :: "string option"
  c_summaryType :: "string option"
  c_blockIds :: "string list"
  c_blocks :: "block list option"

definition json_opt :: "('a \<Rightarrow> json) \<Rightarrow> 'a option \<Rightarrow> json" where
  "json_opt f x = (case x of None \<Rightarrow> JNull | Some v \<Rightarrow> f v)"

definition user_dict :: "user \<Rightarrow> json" where
  "user_dict u =
     JObj [(''id'', JStr (u_id u)), (''email'', JStr (u_email u)),
           (''displayName'', json_opt JStr (u_displayName u))]"

definition response_dict :: "response \<Rightarrow> json" where
  "response_dict r =
     JObj [(''id'', JStr (r_id r)), (''source'', JStr (r_source r)),
           (''responseType'', JStr (r_responseType r)), (''payload'', r_payload r),
           (''requestedAt'', json_opt JNum (r_requestedAt r)),
           (''respondedAt'', json_opt JNum (r_respondedAt r))]"

definition block_dict :: "block \<Rightarrow> json" where
  "block_dict b =
     JObj [(''id'', JStr (b_id b)), (''inputText'', JStr (b_inputText b)),
           (''responseIds'', JList (map JStr (b_responseIds b))),
           (''createdBy'', user_dict (b_createdBy b)), (''createdAt'', JNum (b_createdAt b)),
           (''responses'', json_opt (\<lambda>rs. JList (map response_dict rs)) (b_responses b))]"

definition conversation_dict :: "conversation \<Rightarrow> json" where
  "conversation_dict c =
     JObj [(''id'', JStr (c_id c)), (''createdBy'', user_dict (c_createdBy c)),
           (''createdAt'', JNum (c_createdAt c)), (''updatedAt'', JNum (c_updatedAt c)),
           (''status'', JStr (c_status c)), (''summaryText'', json_opt JStr (c_summaryText c)),
           (''summaryType'', json_opt JStr (c_summaryType c)),
           (''blockIds'', JList (map JStr (c_blockIds c))),
           (''blocks'', json_opt (\<lambda>bs. JList (map block_dict bs)) (c_blocks c))]"

text \<open>
  An optional field of a request body: left out, sent as \<^verbatim>\<open>null\<close>, or sent with a value.
  \<^verbatim>\<open>partial.dict(exclude_unset=True)\<close> holds every field but those left out.
\<close>

datatype 'a opt_field = Unset | SetNone | SetTo 'a

record partial_conversation =
  pc_createdBy :: user
  pc_status :: "string opt_field"
  pc_summaryText :: "string opt_field"
  pc_summaryType :: "string opt_field"
  pc_blockIds :: "string list opt_field"
  pc_users :: "json list opt_field"
  pc_session :: "json opt_field"
  pc_blocks :: "json list opt_field"

text \<open>The payload is \<^verbatim>\<open>Optional[Any]\<close>: sent as \<^verbatim>\<open>null\<close> it is the value \<open>JNull\<close>.\<close>

record partial_response =
  pr_source :: string
  pr_responseType :: string
  pr_payload :: "json option"
  pr_requestedAt :: "int opt_field"
  pr_respondedAt :: "int opt_field"

text \<open>
  What the models' validation does is pydantic's, and the sources do not fix its version. Two
  of its answers are parameters of the handlers below: \<open>validate_block\<close> is
  \<^verbatim>\<open>Block(**d)\<close> for a dict \<open>d\<close> (\<open>None\<close> when it raises a validation error), and
  \<open>payload_default\<close> is the payload \<^verbatim>\<open>Response(...)\<close> takes when none is passed: \<open>Some JNull\<close>
  where a field annotated \<^verbatim>\<open>Optional\<close> defaults to \<^verbatim>\<open>None\<close>, and \<open>None\<close> where such a field is
  required and the call raises.
\<close>

record pydantic =
  validate_block :: "json \<Rightarrow> block option"
  payload_default :: "json option"

text \<open>
  The value under a key of \<^verbatim>\<open>data\<close> after \<^verbatim>\<open>data.update(partial.dict(exclude_unset=True))\<close>,
  for a key \<^verbatim>\<open>data\<close> held before: \<open>None\<close> is Python's \<^verbatim>\<open>None\<close>.
\<close>

fun updated :: "'a \<Rightarrow> 'a opt_field \<Rightarrow> 'a option" where
  "updated d Unset = Some d"
| "updated d SetNone = None"
| "updated d (SetTo v) = Some v"

text \<open>The value of an optional model field whose default is \<^verbatim>\<open>None\<close>.\<close>

fun defaulted :: "'a opt_field \<Rightarrow> 'a option" where
  "defaulted (SetTo v) = Some v"
| "defaulted _ = None"

text \<open>
  The field \<^verbatim>\<open>blocks: Optional[List[Block]]\<close> of \<^verbatim>\<open>Conversation(**conversation_data)\<close>: every
  dict of a list the caller sent is validated as a \<^verbatim>\<open>Block\<close>. The outer \<open>None\<close> is the
  validation error.
\<close>

definition validate_blocks :: "pydantic \<Rightarrow> json list opt_field \<Rightarrow> block list option option" where
  "validate_blocks lib x =
     (case x of
        SetTo ds \<Rightarrow> (case those (map (validate_block lib) ds) of
                      None \<Rightarrow> None
                    | Some bs \<Rightarrow> Some (Some bs))
      | _ \<Rightarrow> Some None)"

text \<open>
  \<^verbatim>\<open>conversation_data\<close> of \<^verbatim>\<open>create_conversation\<close>, updated with the caller's partial
  conversation, and \<^verbatim>\<open>Conversation(**conversation_data)\<close>: \<^verbatim>\<open>status: str\<close> and
  \<^verbatim>\<open>blockIds: List[str]\<close> refuse \<^verbatim>\<open>None\<close>; the keys \<^verbatim>\<open>users\<close> and \<^verbatim>\<open>session\<close> are no fields of
  the model and are ignored.
\<close>

definition new_conversation ::
  "pydantic \<Rightarrow> int \<Rightarrow> string \<Rightarrow> string \<Rightarrow> partial_conversation \<Rightarrow> error + conversation" where
  "new_conversation lib epoch_time uuid query partial =
     (case updated ''OPEN'' (pc_status partial) of
        None \<Rightarrow> Inl ValidationError
      | Some status \<Rightarrow>
          (case updated [] (pc_blockIds partial) of
             None \<Rightarrow> Inl ValidationError
           | Some block_ids \<Rightarrow>
               (case validate_blocks lib (pc_blocks partial) of
                  None \<Rightarrow> Inl ValidationError
                | Some blocks \<Rightarrow>
                    Inr \<lparr>c_id = uuid, c_createdBy = pc_createdBy partial,
                         c_createdAt = epoch_time, c_updatedAt = epoch_time,
                         c_status = status,
                         c_summaryText = updated query (pc_summaryText partial),
                         c_summaryType = updated ''UNKNOWN'' (pc_summaryType partial),
                         c_blockIds = block_ids, c_blocks = blocks\<rparr>)))"

section \<open>The write handlers\<close>

text \<open>
  \<^verbatim>\<open>create_conversation(query, partial_conversation)\<close>. \<open>epoch_time\<close> is \<^verbatim>\<open>int(time.time())\<close>,
  \<open>uuid1\<close> and \<open>uuid2\<close> are the two \<^verbatim>\<open>str(uuid.uuid4())\<close> of the call, in the order they are
  drawn.
\<close>

definition create_conversation ::
  "config \<Rightarrow> pydantic \<Rightarrow> int \<Rightarrow> string \<Rightarrow> string \<Rightarrow> string \<Rightarrow> partial_conversation \<Rightarrow> state
     \<Rightarrow> conversation result" where
  "create_conversation cfg lib epoch_time uuid1 uuid2 query partial_conversation st =
     (case new_conversation lib epoch_time uuid1 query partial_conversation of
        Inl e \<Rightarrow> (Inl (internal_error e), st)
      | Inr conversation0 \<Rightarrow>
          (let new_block = \<lparr>b_id = uuid2, b_inputText = query, b_responseIds = [],
                            b_createdBy = c_createdBy conversation0, b_createdAt = epoch_time,
                            b_responses = None\<rparr>;
               conversation = conversation0\<lparr>c_blockIds := c_blockIds conversation0 @ [b_id new_block]\<rparr>;
               s1 = put_json_to_s3 (s3 st) (get_s3_key cfg (c_id conversation) None None)
                      (conversation_dict conversation);
               s2 = put_json_to_s3 s1 (get_s3_key cfg (c_id conversation) (Some (b_id new_block)) None)
                      (block_dict new_block)
           in (Inr conversation, st\<lparr>s3 := s2\<rparr>)))"


text \<open>\<^verbatim>\<open>delete_conversation(conversation_id)\<close>; the message it returns is left out.\<close>

definition delete_conversation :: "config \<Rightarrow> string \<Rightarrow> state \<Rightarrow> state" where
  "delete_conversation cfg conversation_id st =
     st\<lparr>s3 := delete_json_from_s3 (s3 st) (get_s3_key cfg conversation_id None None)\<rparr>"





text \<open>\<^verbatim>\<open>delete_block(conversation_id, block_id)\<close>; the message it returns is left out.\<close>

definition delete_block :: "config \<Rightarrow> string \<Rightarrow> string \<Rightarrow> state \<Rightarrow> state" where
  "delete_block cfg conversation_id block_id st =
     st\<lparr>s3 := delete_json_from_s3 (s3 st) (get_s3_key cfg conversation_id (Some block_id) None)\<rparr>"

text \<open>
  \<^verbatim>\<open>response_data\<close> of \<^verbatim>\<open>create_response\<close>, updated with the caller's partial response, and
  \<^verbatim>\<open>Response(**response_data)\<close>. (The test \<^verbatim>\<open>'respondedAt' not in partial_response.dict()\<close> is
  never true: \<^verbatim>\<open>dict()\<close> lists every field.)
\<close>

definition new_response :: "pydantic \<Rightarrow> int \<Rightarrow> string \<Rightarrow> partial_response \<Rightarrow> error + response" where
  "new_response lib epoch_time uuid partial =
     (case (case pr_payload partial of Some p \<Rightarrow> Some p | None \<Rightarrow> payload_default lib) of
        None \<Rightarrow> Inl ValidationError
      | Some payload \<Rightarrow>
          Inr \<lparr>r_id = uuid, r_source = pr_source partial,
               r_responseType = pr_responseType partial, r_payload = payload,
               r_requestedAt = defaulted (pr_requestedAt partial),
               r_respondedAt = updated epoch_time (pr_respondedAt partial)\<rparr>)"

text \<open>\<^verbatim>\<open>Block(**d)\<close>: \<^verbatim>\<open>**\<close> takes a mapping, and the model validates it.\<close>

definition block_of_doc :: "pydantic \<Rightarrow> json \<Rightarrow> error + block" where
  "block_of_doc lib d =
     (case d of
        JObj kvs \<Rightarrow> (case validate_block lib d of None \<Rightarrow> Inl ValidationError | Some b \<Rightarrow> Inr b)
      | _ \<Rightarrow> Inl TypeError)"

text \<open>
  \<^verbatim>\<open>create_response(conversation_id, block_id, partial_response)\<close>. \<open>now\<close> is the reading of the
  cache's timer, \<open>epoch_time\<close> is \<^verbatim>\<open>int(time.time())\<close>, \<open>uuid\<close> is \<^verbatim>\<open>str(uuid.uuid4())\<close>. The
  handler has no \<^verbatim>\<open>except\<close> clause.
\<close>

definition create_response ::
  "config \<Rightarrow> pydantic \<Rightarrow> nat \<Rightarrow> int \<Rightarrow> string \<Rightarrow> string \<Rightarrow> string \<Rightarrow> partial_response \<Rightarrow> state
     \<Rightarrow> response result" where
  "create_response cfg lib now epoch_time uuid conversation_id block_id partial_response st =
     (case new_response lib epoch_time uuid partial_response of
        Inl e \<Rightarrow> (Inl e, st)
      | Inr response \<Rightarrow>
          (let st1 = st\<lparr>s3 := put_json_to_s3 (s3 st)
                                 (get_s3_key cfg conversation_id (Some block_id) (Some (r_id response)))
                                 (response_dict response)\<rparr>
           in case fetch_block cfg now conversation_id block_id [] st1 of
                (Inl e, st2) \<Rightarrow> (Inl e, st2)
              | (Inr d, st2) \<Rightarrow>
                  (case block_of_doc lib d of
                     Inl e \<Rightarrow> (Inl e, st2)
                   | Inr block0 \<Rightarrow>
                       (let block = block0\<lparr>b_responseIds := b_responseIds block0 @ [r_id response]\<rparr>
                        in (Inr response,
                            st2\<lparr>s3 := put_json_to_s3 (s3 st2)
                                         (get_s3_key cfg conversation_id (Some block_id) None)
                                         (block_dict block)\<rparr>)))))"


text \<open>\<^verbatim>\<open>delete_response(conversation_id, block_id, response_id)\<close>.\<close>

definition delete_response :: "config \<Rightarrow> string \<Rightarrow> string \<Rightarrow> string \<Rightarrow> state \<Rightarrow> state" where
  "delete_response cfg conversation_id block_id response_id st =
     st\<lparr>s3 := delete_json_from_s3 (s3 st)
                  (get_s3_key cfg conversation_id (Some block_id) (Some response_id))\<rparr>"

section \<open>Values for the examples\<close>

text \<open>An environment, and a validator that accepts the dicts \<open>block_dict\<close> writes.\<close>

definition example_config :: config where
  "example_config =
     \<lparr>bucket_base_folder = ''base'', conversations_dir_name = ''conversations'',
      blocks_dir_name = ''blocks'', responses_dir_name = ''responses''\<rparr>"

fun json_str :: "json \<Rightarrow> string option" where
  "json_str (JStr s) = Some s"
| "json_str _ = None"

fun json_int :: "json \<Rightarrow> int option" where
  "json_int (JNum n) = Some n"
| "json_int _ = None"

fun json_nullable :: "(json \<Rightarrow> 'a option) \<Rightarrow> json \<Rightarrow> 'a option option" where
  "json_nullable f JNull = Some None"
| "json_nullable f j = map_option Some (f j)"

fun json_list :: "(json \<Rightarrow> 'a option) \<Rightarrow> json \<Rightarrow> 'a list option" where
  "json_list f (JList xs) = those (map f xs)"
| "json_list f _ = None"

definition get_field :: "json \<Rightarrow> string \<Rightarrow> (json \<Rightarrow> 'a option) \<Rightarrow> 'a option" where
  "get_field d k f = (case d of JObj kvs \<Rightarrow> Option.bind (map_of kvs k) f | _ \<Rightarrow> None)"

definition strict_user :: "json \<Rightarrow> user option" where
  "strict_user d =
     Option.bind (get_field d ''id'' json_str) (\<lambda>i.
     Option.bind (get_field d ''email'' json_str) (\<lambda>e.
     Option.bind (get_field d ''displayName'' (json_nullable json_str)) (\<lambda>n.
     Some \<lparr>u_id = i, u_email = e, u_displayName = n\<rparr>)))"

definition strict_response :: "json \<Rightarrow> response option" where
  "strict_response d =
     Option.bind (get_field d ''id'' json_str) (\<lambda>i.
     Option.bind (get_field d ''source'' json_str) (\<lambda>s.
     Option.bind (get_field d ''responseType'' json_str) (\<lambda>t.
     Option.bind (get_field d ''payload'' Some) (\<lambda>p.
     Option.bind (get_field d ''requestedAt'' (json_nullable json_int)) (\<lambda>rq.
     Option.bind (get_field d ''respondedAt'' (json_nullable json_int)) (\<lambda>rs.
     Some \<lparr>r_id = i, r_source = s, r_responseType = t, r_payload = p,
           r_requestedAt = rq, r_respondedAt = rs\<rparr>))))))"

definition strict_block :: "json \<Rightarrow> block option" where
  "strict_block d =
     Option.bind (get_field d ''id'' json_str) (\<lambda>i.
     Option.bind (get_field d ''inputText'' json_str) (\<lambda>t.
     Option.bind (get_field d ''responseIds'' (json_list json_str)) (\<lambda>rids.
     Option.bind (get_field d ''createdBy'' strict_user) (\<lambda>u.
     Option.bind (get_field d ''createdAt'' json_int) (\<lambda>a.
     Option.bind (get_field d ''responses'' (json_nullable (json_list strict_response))) (\<lambda>rs.
     Some \<lparr>b_id = i, b_inputText = t, b_responseIds = rids, b_createdBy = u,
           b_createdAt = a, b_responses = rs\<rparr>))))))"

definition strict_pydantic :: pydantic where
  "strict_pydantic = \<lparr>validate_block = strict_block, payload_default = Some JNull\<rparr>"

definition alice :: user where
  "alice = \<lparr>u_id = ''u1'', u_email = ''alice@example.org'', u_displayName = None\<rparr>"

section \<open>The wording of the specification\<close>

text \<open>
  The specification's test for hydrating the blocks of a conversation: some comma-separated
  path of the field selection is exactly \<^verbatim>\<open>blocks\<close> or begins with \<^verbatim>\<open>blocks.\<close> (to compare
  with \<open>wants_blocks\<close>, the test the handler makes).
\<close>

definition spec_wants_blocks :: "string \<Rightarrow> bool" where
  "spec_wants_blocks fields' \<longleftrightarrow>
     list_ex (\<lambda>path. path = ''blocks'' \<or> startswith path ''blocks.'') (str_split CHR '','' fields')"

text \<open>A bucket with one conversation, whose only block is not stored; nothing is cached.\<close>

definition dangling_state :: state where
  "dangling_state =
     \<lparr>s3 = [get_s3_key example_config ''c1'' None None \<mapsto>
               JObj [(''id'', JStr ''c1''), (''status'', JStr ''OPEN''),
                     (''blockIds'', JList [JStr ''b1''])]],
      cache = []\<rparr>"

text \<open>A request body that sets nothing but the required \<^verbatim>\<open>createdBy\<close>; an empty state.\<close>

definition minimal_partial :: partial_conversation where
  "minimal_partial =
     \<lparr>pc_createdBy = alice, pc_status = Unset, pc_summaryText = Unset, pc_summaryType = Unset,
      pc_blockIds = Unset, pc_users = Unset, pc_session = Unset, pc_blocks = Unset\<rparr>"

definition empty_state :: state where
  "empty_state = \<lparr>s3 = Map.empty, cache = []\<rparr>"



text \<open>
  A block whose stored document lists two responses, while the cache still holds, under the key
  of \<^verbatim>\<open>fetch_block('c1', 'b1', '')\<close>, the document that listed one; a request body for a
  new response.
\<close>

definition cached_block :: block where
  "cached_block =
     \<lparr>b_id = ''b1'', b_inputText = ''hello'', b_responseIds = [''r1''], b_createdBy = alice,
      b_createdAt = 1700000000, b_responses = None\<rparr>"

definition stale_cache_state :: state where
  "stale_cache_state =
     \<lparr>s3 = [get_s3_key example_config ''c1'' (Some ''b1'') None \<mapsto>
               block_dict (cached_block\<lparr>b_responseIds := [''r1'', ''r2'']\<rparr>)],
      cache = [(hash_key [AStr ''c1'', AStr ''b1'', AStr ''''] [], block_dict cached_block, 300000)]\<rparr>"

definition agent_text :: partial_response where
  "agent_text =
     \<lparr>pr_source = ''agent'', pr_responseType = ''text'', pr_payload = None,
      pr_requestedAt = Unset, pr_respondedAt = Unset\<rparr>"








section \<open>Properties of the field projector\<close>

lemma str_split_nonempty: "str_split sep s \<noteq> []"
  by (induction s) (auto split: list.splits)

lemma str_split_no_sep: "sep \<notin> set s \<Longrightarrow> str_split sep s = [s]"
  by (induction s) auto

lemma startswith_prefix: "startswith s p \<longleftrightarrow> prefix p s"
  by (induction s p rule: startswith.induct) auto

lemma str_contains_sublist: "str_contains p s \<longleftrightarrow> sublist p s"
  by (induction s) (auto simp: startswith_prefix sublist_Cons_right)

text \<open>A list of field names without dotted paths, as the three entity default lists are.\<close>

definition dot_free :: "string list \<Rightarrow> bool" where
  "dot_free fields' = list_all (\<lambda>f. CHR ''.'' \<notin> set f) fields'"

lemma entity_defaults_dot_free:
  "dot_free default_conversation_fields" "dot_free default_block_fields"
  "dot_free default_response_fields"
  by (simp_all add: dot_free_def default_conversation_fields_def default_block_fields_def
      default_response_fields_def)

lemma add_field_part_dot_free:
  "CHR ''.'' \<notin> set f \<Longrightarrow>
   add_field_part fp f = (if f \<in> fst ` set fp then fp else fp @ [(f, [])])"
  by (simp add: add_field_part_def str_split_no_sep)

lemma foldl_add_dot_free:
  "list_all (\<lambda>f. CHR ''.'' \<notin> set f) fs \<Longrightarrow> distinct fs \<Longrightarrow> set fs \<inter> fst ` set fp = {} \<Longrightarrow>
   foldl add_field_part fp fs = fp @ map (\<lambda>k. (k, [])) fs"
proof (induction fs arbitrary: fp)
  case Nil
  then show ?case by simp
next
  case (Cons f fs)
  have a: "add_field_part fp f = fp @ [(f, [])]"
    using Cons.prems by (simp add: add_field_part_dot_free)
  have "foldl add_field_part (fp @ [(f, [])]) fs = (fp @ [(f, [])]) @ map (\<lambda>k. (k, [])) fs"
    using Cons.prems by (intro Cons.IH) auto
  then show ?case by (simp add: a)
qed

lemma field_parts_dot_free:
  "dot_free fs \<Longrightarrow> field_parts fs = map (\<lambda>k. (k, [])) (remdups fs)"
  unfolding field_parts_def dot_free_def
  using foldl_add_dot_free[of "remdups fs" "[]"] by (simp add: list_all_iff)

lemma filter_loop_verbatim:
  "filter_loop (JObj doc) (map (\<lambda>k. (k, [])) ks) acc =
     Inr (JObj (acc @ map (\<lambda>k. (k, the (map_of doc k))) (filter (\<lambda>k. k \<in> fst ` set doc) ks)))"
proof (induction ks arbitrary: acc)
  case Nil
  then show ?case by simp
next
  case (Cons k ks)
  show ?case
  proof (cases "k \<in> fst ` set doc")
    case True
    then obtain v where v: "map_of doc k = Some v"
      by (metis domD dom_map_of_conv_image_fst)
    show ?thesis using True v by (simp add: Cons.IH)
  next
    case False
    then show ?thesis by (simp add: Cons.IH)
  qed
qed

lemma include_fields_empty: "include_fields ds [] = ds"
  by (simp add: include_fields_def)

text \<open>
  Claim C7 (default inclusion). Projecting a document (a dict) with an empty field selection
  and a default field list without dotted names, as every entity's default list is, returns a
  dict whose keys are exactly the default fields that are keys of the document, each once
  and each bound to the value the document binds it to.
\<close>

theorem default_inclusion:
  assumes "dot_free default_fields"
  shows "\<exists>out. filter_nested_fields (JObj doc) default_fields [] = Inr (JObj out)
           \<and> distinct (map fst out)
           \<and> fst ` set out = set default_fields \<inter> fst ` set doc
           \<and> (\<forall>k \<in> fst ` set out. map_of out k = map_of doc k)"
proof -
  let ?ks = "filter (\<lambda>k. k \<in> fst ` set doc) (remdups default_fields)"
  let ?out = "map (\<lambda>k. (k, the (map_of doc k))) ?ks"
  have r: "filter_nested_fields (JObj doc) default_fields [] = Inr (JObj ?out)"
    using assms by (simp add: include_fields_empty field_parts_dot_free filter_loop_verbatim)
  have m: "map fst ?out = ?ks" by (simp add: comp_def)
  have d: "distinct (map fst ?out)" unfolding m by simp
  have s: "fst ` set ?out = set default_fields \<inter> fst ` set doc"
    by force
  have v: "\<forall>k \<in> fst ` set ?out. map_of ?out k = map_of doc k"
  proof
    fix k assume "k \<in> fst ` set ?out"
    then have k: "k \<in> set ?ks" by (auto simp: image_iff)
    then have "k \<in> fst ` set doc" by simp
    then obtain v where v: "map_of doc k = Some v"
      by (metis domD dom_map_of_conv_image_fst)
    have "map_of ?out k = Some (the (map_of doc k))"
      using k by (simp add: map_of_map_restrict comp_def)
    then show "map_of ?out k = map_of doc k" using v by simp
  qed
  show ?thesis using r d s v by blast
qed

theorem default_inclusion_witness:
  "dot_free default_block_fields \<and>
   (\<exists>out. filter_nested_fields
            (JObj [(''id'', JStr ''b1''), (''inputText'', JStr ''hello''), (''note'', JNum 7)])
            default_block_fields [] = Inr (JObj out)
      \<and> distinct (map fst out)
      \<and> fst ` set out = set default_block_fields \<inter>
           fst ` set [(''id'', JStr ''b1''), (''inputText'', JStr ''hello''), (''note'', JNum 7)]
      \<and> (\<forall>k \<in> fst ` set out. map_of out k =
           map_of [(''id'', JStr ''b1''), (''inputText'', JStr ''hello''), (''note'', JNum 7)] k))"
proof -
  have h: "dot_free default_block_fields" by (rule entity_defaults_dot_free)
  show ?thesis using h default_inclusion [OF h] by blast
qed

section \<open>When the blocks of a conversation are fetched\<close>

lemma str_split_hd_prefix: "prefix (hd (str_split sep s)) s"
  by (induction s) (auto split: list.splits)

lemma str_split_sublist: "w \<in> set (str_split sep s) \<Longrightarrow> sublist w s"
proof (induction s arbitrary: w)
  case Nil
  then show ?case by simp
next
  case (Cons c cs)
  show ?case
  proof (cases "c = sep")
    case True
    then show ?thesis using Cons by (auto intro: sublist_Cons_right[THEN iffD2])
  next
    case False
    obtain w0 ws where sp: "str_split sep cs = w0 # ws"
      using str_split_nonempty[of sep cs] by (cases "str_split sep cs") auto
    have p: "prefix w0 cs" using str_split_hd_prefix[of sep cs] sp by simp
    from Cons.prems False sp have "w = c # w0 \<or> w \<in> set ws" by auto
    then show ?thesis
    proof
      assume "w = c # w0"
      then have "prefix w (c # cs)" using p by simp
      then show ?thesis by (rule prefix_imp_sublist)
    next
      assume "w \<in> set ws"
      then have "sublist w cs" using Cons.IH sp by simp
      then show ?thesis by (simp add: sublist_Cons_right)
    qed
  qed
qed

text \<open>
  The handler's test is the substring test alone: a path that begins with \<^verbatim>\<open>blocks.\<close> holds
  \<^verbatim>\<open>blocks\<close>, so the second disjunct adds nothing.
\<close>

lemma wants_blocks_substring: "wants_blocks f \<longleftrightarrow> str_contains ''blocks'' f"
proof
  assume w: "wants_blocks f"
  show "str_contains ''blocks'' f"
  proof (cases "str_contains ''blocks'' f")
    case True
    then show ?thesis .
  next
    case False
    with w obtain p where p: "p \<in> set (str_split CHR '','' f)" "startswith p ''blocks.''"
      by (auto simp: wants_blocks_def list_ex_iff)
    have "prefix ''blocks.'' p" using p(2) by (simp add: startswith_prefix)
    then have "prefix ''blocks'' p"
      by (metis append_prefixD[of "''blocks''" "''.''" p] append_Cons append_Nil)
    then have "sublist ''blocks'' p" by (rule prefix_imp_sublist)
    moreover have "sublist p f" using p(1) by (rule str_split_sublist)
    ultimately have "sublist ''blocks'' f" by (rule sublist_order.order.trans)
    then show ?thesis by (simp add: str_contains_sublist)
  qed
next
  assume c: "str_contains ''blocks'' f"
  then have "f \<noteq> []" by auto
  with c show "wants_blocks f" by (simp add: wants_blocks_def)
qed

lemma spec_wants_blocks_implies: "f \<noteq> [] \<Longrightarrow> spec_wants_blocks f \<Longrightarrow> wants_blocks f"
proof -
  assume ne: "f \<noteq> []" and s: "spec_wants_blocks f"
  then obtain p where p: "p \<in> set (str_split CHR '','' f)" "p = ''blocks'' \<or> startswith p ''blocks.''"
    by (auto simp: spec_wants_blocks_def list_ex_iff)
  have "prefix ''blocks'' p"
  proof (rule disjE[OF p(2)])
    assume "p = ''blocks''" then show ?thesis by simp
  next
    assume "startswith p ''blocks.''"
    then have "prefix ''blocks.'' p" by (simp add: startswith_prefix)
    then show ?thesis
      by (metis append_prefixD[of "''blocks''" "''.''" p] append_Cons append_Nil)
  qed
  then have "sublist ''blocks'' p" by (rule prefix_imp_sublist)
  moreover have "sublist p f" using p(1) by (rule str_split_sublist)
  ultimately have "sublist ''blocks'' f" by (rule sublist_order.order.trans)
  then show ?thesis by (simp add: wants_blocks_substring str_contains_sublist)
qed

text \<open>
  Claim C3 (blocks are fetched if and only if a requested path is \<^verbatim>\<open>blocks\<close> or begins with
  \<^verbatim>\<open>blocks.\<close>). The handler at the field selection \<^verbatim>\<open>xblocks\<close>: no path of the selection
  is \<^verbatim>\<open>blocks\<close> or begins with \<^verbatim>\<open>blocks.\<close>, yet the handler's test holds, the block of the
  conversation is fetched, and since it is not stored the read fails. With no selection, or
  with the selection \<^verbatim>\<open>status\<close>, the same read succeeds.
\<close>

theorem substring_selection_fetches_blocks:
  "\<not> spec_wants_blocks ''xblocks'' \<and> wants_blocks ''xblocks'' \<and>
   fst (read_conversation example_config 0 ''c1'' (Some ''xblocks'') dangling_state)
     = Inl (HTTPException (Status 500) (StrOf no_such_key)) \<and>
   fst (read_conversation example_config 0 ''c1'' None dangling_state)
     = Inr (JObj [(''id'', JStr ''c1''), (''status'', JStr ''OPEN''),
                  (''blockIds'', JList [JStr ''b1''])]) \<and>
   fst (read_conversation example_config 0 ''c1'' (Some ''status'') dangling_state)
     = Inr (JObj [(''id'', JStr ''c1''), (''blockIds'', JList [JStr ''b1'']),
                  (''status'', JStr ''OPEN'')])"
  by code_simp

section \<open>Creating a conversation\<close>

lemma conversation_key_neq_block_key:
  "block_id \<noteq> [] \<Longrightarrow>
   get_s3_key cfg conversation_id None None \<noteq> get_s3_key cfg conversation_id (Some block_id) None"
  by (simp add: get_s3_key_def truthy_id_def fmt_id_def)

text \<open>
  Claim C9, amended (create conversation with defaults). A call whose partial conversation sets
  none of \<^verbatim>\<open>status\<close>, \<^verbatim>\<open>summaryType\<close> and \<^verbatim>\<open>blockIds\<close>, and whose \<^verbatim>\<open>blocks\<close>, when sent, are
  null or dicts that all validate as blocks, returns a conversation with status \<^verbatim>\<open>OPEN\<close>,
  summary type \<^verbatim>\<open>UNKNOWN\<close> and exactly one block id, and writes exactly two documents, under
  two different keys: the conversation under its key, and under the key of that block id a
  block whose input text is the query. When a sent block fails validation the call raises
  HTTP 500 and the state is unchanged. (\<open>uuid2\<close> is a \<^verbatim>\<open>uuid4\<close> string, never empty.)
\<close>

theorem create_conversation_defaults:
  assumes unset: "pc_status p = Unset" "pc_summaryType p = Unset" "pc_blockIds p = Unset"
    and uuid: "uuid2 \<noteq> []"
  shows "(validate_blocks lib (pc_blocks p) = None \<longrightarrow>
            create_conversation cfg lib epoch_time uuid1 uuid2 query p st
              = (Inl (HTTPException (Status 500) (StrOf ValidationError)), st)) \<and>
         (\<forall>bs. validate_blocks lib (pc_blocks p) = Some bs \<longrightarrow>
            (\<exists>c blk.
               create_conversation cfg lib epoch_time uuid1 uuid2 query p st
                 = (Inr c, st\<lparr>s3 := (s3 st)(get_s3_key cfg (c_id c) None None \<mapsto> conversation_dict c,
                                            get_s3_key cfg (c_id c) (Some (b_id blk)) None \<mapsto> block_dict blk)\<rparr>)
               \<and> get_s3_key cfg (c_id c) None None \<noteq> get_s3_key cfg (c_id c) (Some (b_id blk)) None
               \<and> c_status c = ''OPEN'' \<and> c_summaryType c = Some ''UNKNOWN''
               \<and> c_blockIds c = [b_id blk] \<and> length (c_blockIds c) = 1
               \<and> b_inputText blk = query \<and> c_blocks c = bs))"
proof (intro conjI impI allI)
  assume "validate_blocks lib (pc_blocks p) = None"
  then show "create_conversation cfg lib epoch_time uuid1 uuid2 query p st
              = (Inl (HTTPException (Status 500) (StrOf ValidationError)), st)"
    using unset by (simp add: create_conversation_def new_conversation_def internal_error_def)
next
  fix bs assume v: "validate_blocks lib (pc_blocks p) = Some bs"
  let ?c = "\<lparr>c_id = uuid1, c_createdBy = pc_createdBy p, c_createdAt = epoch_time,
             c_updatedAt = epoch_time, c_status = ''OPEN'',
             c_summaryText = updated query (pc_summaryText p),
             c_summaryType = Some ''UNKNOWN'', c_blockIds = [uuid2], c_blocks = bs\<rparr>"
  let ?b = "\<lparr>b_id = uuid2, b_inputText = query, b_responseIds = [],
             b_createdBy = pc_createdBy p, b_createdAt = epoch_time, b_responses = None\<rparr>"
  have r: "create_conversation cfg lib epoch_time uuid1 uuid2 query p st
        = (Inr ?c, st\<lparr>s3 := (s3 st)(get_s3_key cfg (c_id ?c) None None \<mapsto> conversation_dict ?c,
                                   get_s3_key cfg (c_id ?c) (Some (b_id ?b)) None \<mapsto> block_dict ?b)\<rparr>)"
    using unset v
    by (simp add: create_conversation_def new_conversation_def put_json_to_s3_def Let_def)
  have k: "get_s3_key cfg (c_id ?c) None None \<noteq> get_s3_key cfg (c_id ?c) (Some (b_id ?b)) None"
    using uuid by (simp add: conversation_key_neq_block_key)
  show "\<exists>c blk.
               create_conversation cfg lib epoch_time uuid1 uuid2 query p st
                 = (Inr c, st\<lparr>s3 := (s3 st)(get_s3_key cfg (c_id c) None None \<mapsto> conversation_dict c,
                                            get_s3_key cfg (c_id c) (Some (b_id blk)) None \<mapsto> block_dict blk)\<rparr>)
               \<and> get_s3_key cfg (c_id c) None None \<noteq> get_s3_key cfg (c_id c) (Some (b_id blk)) None
               \<and> c_status c = ''OPEN'' \<and> c_summaryType c = Some ''UNKNOWN''
               \<and> c_blockIds c = [b_id blk] \<and> length (c_blockIds c) = 1
               \<and> b_inputText blk = query \<and> c_blocks c = bs"
    apply (rule exI[of _ ?c], rule exI[of _ ?b])
    using r k by simp
qed

theorem create_conversation_defaults_witness:
  "pc_status minimal_partial = Unset \<and> pc_summaryType minimal_partial = Unset \<and>
   pc_blockIds minimal_partial = Unset \<and> ''b1'' \<noteq> [] \<and>
   validate_blocks strict_pydantic (pc_blocks minimal_partial) = Some None \<and>
   (\<exists>c blk.
      create_conversation example_config strict_pydantic 1700000000 ''c1'' ''b1'' ''hello''
          minimal_partial empty_state
        = (Inr c, empty_state\<lparr>s3 := (s3 empty_state)
                       (get_s3_key example_config (c_id c) None None \<mapsto> conversation_dict c,
                        get_s3_key example_config (c_id c) (Some (b_id blk)) None \<mapsto> block_dict blk)\<rparr>)
      \<and> get_s3_key example_config (c_id c) None None
           \<noteq> get_s3_key example_config (c_id c) (Some (b_id blk)) None
      \<and> c_status c = ''OPEN'' \<and> c_summaryType c = Some ''UNKNOWN''
      \<and> c_blockIds c = [b_id blk] \<and> length (c_blockIds c) = 1
      \<and> b_inputText blk = ''hello'' \<and> c_blocks c = None)"
proof -
  have u: "pc_status minimal_partial = Unset" "pc_summaryType minimal_partial = Unset"
    "pc_blockIds minimal_partial = Unset"
    by (simp_all add: minimal_partial_def)
  have n: "''b1'' \<noteq> []" by simp
  have v: "validate_blocks strict_pydantic (pc_blocks minimal_partial) = Some None"
    by (simp add: minimal_partial_def validate_blocks_def)
  from create_conversation_defaults [OF u n, of strict_pydantic example_config 1700000000
      "''c1''" "''hello''" empty_state] v
  show ?thesis using u n by blast
qed

text \<open>
  Claim C9 as stated fails: the partial conversation below sets none of \<^verbatim>\<open>status\<close>,
  \<^verbatim>\<open>summaryType\<close> and \<^verbatim>\<open>blockIds\<close>, but sends \<^verbatim>\<open>blocks = [{}]\<close>; the empty dict is no block,
  the call raises HTTP 500, no conversation is returned and nothing is written.
\<close>

theorem invalid_blocks_counterexample:
  "pc_status (minimal_partial\<lparr>pc_blocks := SetTo [JObj []]\<rparr>) = Unset \<and>
   pc_summaryType (minimal_partial\<lparr>pc_blocks := SetTo [JObj []]\<rparr>) = Unset \<and>
   pc_blockIds (minimal_partial\<lparr>pc_blocks := SetTo [JObj []]\<rparr>) = Unset \<and>
   create_conversation example_config strict_pydantic 1700000000 ''c1'' ''b1'' ''hello''
       (minimal_partial\<lparr>pc_blocks := SetTo [JObj []]\<rparr>) empty_state
     = (Inl (HTTPException (Status 500) (StrOf ValidationError)), empty_state)"
  by (simp add: minimal_partial_def create_conversation_def new_conversation_def
      validate_blocks_def strict_pydantic_def strict_block_def get_field_def internal_error_def)

section \<open>What the handlers write to the bucket\<close>

























section \<open>Creating a response\<close>

lemma new_response_id: "new_response lib t u p = Inr r \<Longrightarrow> r_id r = u"
  by (auto simp: new_response_def split: option.splits)

text \<open>
  Claim C10 (\<^verbatim>\<open>create_response\<close> rewrites the cached block). When the cache holds an unexpired
  entry for \<^verbatim>\<open>fetch_block(conversation_id, block_id, '')\<close>, a dict that validates as the block
  \<open>blk\<close>, then \<^verbatim>\<open>create_response\<close> returns the new response and the document it leaves under
  the block's key is \<open>blk\<close> with the new response id appended to its response ids, whatever
  the bucket held under that key.
\<close>

theorem create_response_rewrites_cached_block:
  assumes hit: "cache_getitem (cache st) now
                  (hash_key [AStr conversation_id, AStr block_id, AStr []] []) = Some (JObj kvs)"
    and valid: "validate_block lib (JObj kvs) = Some blk"
    and resp: "new_response lib epoch_time uuid partial_response = Inr response"
  shows "\<exists>st'. create_response cfg lib now epoch_time uuid conversation_id block_id
                 partial_response st = (Inr response, st')
           \<and> s3 st' (get_s3_key cfg conversation_id (Some block_id) None)
               = Some (block_dict (blk\<lparr>b_responseIds := b_responseIds blk @ [uuid]\<rparr>))"
proof -
  let ?st1 = "st\<lparr>s3 := put_json_to_s3 (s3 st)
                  (get_s3_key cfg conversation_id (Some block_id) (Some (r_id response)))
                  (response_dict response)\<rparr>"
  have f: "fetch_block cfg now conversation_id block_id [] ?st1
             = (Inr (JObj kvs), ?st1\<lparr>cache := cache_touch (cache ?st1)
                    (hash_key [AStr conversation_id, AStr block_id, AStr []] [])\<rparr>)"
    using hit by (simp add: fetch_block_def cached_def)
  have b: "block_of_doc lib (JObj kvs) = Inr blk"
    using valid by (simp add: block_of_doc_def)
  have i: "r_id response = uuid" using resp by (rule new_response_id)
  show ?thesis
    using resp f b i by (simp add: create_response_def Let_def put_json_to_s3_def)
qed


text \<open>
  An instance: the stored block lists the responses \<^verbatim>\<open>r1\<close> and \<^verbatim>\<open>r2\<close>, the cached one lists
  \<^verbatim>\<open>r1\<close>; after the response \<^verbatim>\<open>r3\<close> is created the stored block lists \<^verbatim>\<open>r1\<close> and \<^verbatim>\<open>r3\<close>.
\<close>

theorem create_response_rewrites_cached_block_witness:
  "cache_getitem (cache stale_cache_state) 10
       (hash_key [AStr ''c1'', AStr ''b1'', AStr []] []) = Some (block_dict cached_block) \<and>
   validate_block strict_pydantic (block_dict cached_block) = Some cached_block \<and>
   new_response strict_pydantic 1700000100 ''r3'' agent_text
     = Inr \<lparr>r_id = ''r3'', r_source = ''agent'', r_responseType = ''text'', r_payload = JNull,
            r_requestedAt = None, r_respondedAt = Some 1700000100\<rparr> \<and>
   s3 stale_cache_state (get_s3_key example_config ''c1'' (Some ''b1'') None)
     = Some (block_dict (cached_block\<lparr>b_responseIds := [''r1'', ''r2'']\<rparr>)) \<and>
   (\<exists>st'. create_response example_config strict_pydantic 10 1700000100 ''r3'' ''c1'' ''b1''
              agent_text stale_cache_state
            = (Inr \<lparr>r_id = ''r3'', r_source = ''agent'', r_responseType = ''text'',
                    r_payload = JNull, r_requestedAt = None, r_respondedAt = Some 1700000100\<rparr>, st')
        \<and> s3 st' (get_s3_key example_config ''c1'' (Some ''b1'') None)
            = Some (block_dict (cached_block\<lparr>b_responseIds := [''r1'', ''r3'']\<rparr>)))"
proof -
  obtain kvs where kvs: "block_dict cached_block = JObj kvs"
    by (simp add: block_dict_def)
  have hit: "cache_getitem (cache stale_cache_state) 10
       (hash_key [AStr ''c1'', AStr ''b1'', AStr []] []) = Some (JObj kvs)"
    unfolding kvs[symmetric] by (simp add: stale_cache_state_def cache_getitem_def)
  have valid: "validate_block strict_pydantic (JObj kvs) = Some cached_block"
    unfolding kvs[symmetric]
    by (simp add: strict_pydantic_def strict_block_def block_dict_def get_field_def
        cached_block_def user_dict_def alice_def strict_user_def json_opt_def)
  have resp: "new_response strict_pydantic 1700000100 ''r3'' agent_text
     = Inr \<lparr>r_id = ''r3'', r_source = ''agent'', r_responseType = ''text'', r_payload = JNull,
            r_requestedAt = None, r_respondedAt = Some 1700000100\<rparr>"
    by (simp add: new_response_def strict_pydantic_def agent_text_def)
  have stored: "s3 stale_cache_state (get_s3_key example_config ''c1'' (Some ''b1'') None)
     = Some (block_dict (cached_block\<lparr>b_responseIds := [''r1'', ''r2'']\<rparr>))"
    by (simp add: stale_cache_state_def)
  have ids: "cached_block\<lparr>b_responseIds := b_responseIds cached_block @ [''r3'']\<rparr>
      = cached_block\<lparr>b_responseIds := [''r1'', ''r3'']\<rparr>"
    by (simp add: cached_block_def)
  from create_response_rewrites_cached_block [OF hit valid resp, of example_config]
  show ?thesis using hit valid resp stored unfolding kvs ids by simp
qed

section \<open>Cache keys\<close>





section \<open>Hydrating the responses of a block\<close>





end
